theory Spec2Isabelle
  imports Complex_Main "HOL-Library.Sublist"
begin

section \<open>The text analysis pipeline of words\_token.py\<close>

text \<open>
  A shallow embedding of the functions \<open>parse_line\<close>, \<open>tokenize_and_clean\<close>,
  \<open>categorize_issues\<close>, \<open>generate_ngrams\<close>, \<open>analyze_text\<close> and \<open>save_to_json\<close>.
  Python strings are \<open>string\<close>, Python integers are \<open>int\<close>, a \<open>Counter\<close> (a dict, which
  keeps its keys in insertion order) is an association list in insertion order, and the
  objects the script gets from its libraries (tokenizer, stop words, entity recogniser,
  sentiment scorer, \<open>strptime\<close>, the character tables of \<open>str\<close>) are the fields of a
  record that every function takes as its first argument.
\<close>

subsection \<open>Iterators\<close>

text \<open>
  A Python iterator (here: the \<open>zip\<close> object) holds the items it has not yet handed out.
  Iterating it to the end (a \<open>for\<close> loop, \<open>list(it)\<close>, \<open>Counter.update(it)\<close>) returns
  those items and leaves the same object exhausted.
\<close>

datatype 'a iterator = Iterator (pending: "'a list")

definition consume :: "'a iterator \<Rightarrow> 'a list \<times> 'a iterator" where
  "consume it = (pending it, Iterator [])"

text \<open>Two iterations of one object, one after the other: what each of them yields.\<close>

definition iterate_twice :: "'a iterator \<Rightarrow> 'a list \<times> 'a list" where
  "iterate_twice it =
     (let (first, it1) = consume it;
          (second, it2) = consume it1
      in (first, second))"

subsection \<open>generate\_ngrams\<close>

text \<open>
  \<open>zip(*xss)\<close>: with no argument it yields nothing; otherwise it yields the tuple of the
  heads as long as every argument has one.
\<close>

function zip_star :: "'a list list \<Rightarrow> 'a list list" where
  "zip_star xss =
     (if xss = [] \<or> (\<exists>xs \<in> set xss. xs = []) then []
      else map hd xss # zip_star (map tl xss))"
  by pat_completeness auto
termination
proof (relation "measure (\<lambda>xss. length (hd xss))")
  show "wf (measure (\<lambda>xss::'a list list. length (hd xss)))" by simp
next
  fix xss :: "'a list list"
  assume "\<not> (xss = [] \<or> (\<exists>xs \<in> set xss. xs = []))"
  then have "xss \<noteq> []" and "[] \<notin> set xss" by auto
  then have "hd xss \<noteq> []" by (metis hd_in_set)
  with \<open>xss \<noteq> []\<close>
  show "(map tl xss, xss) \<in> measure (\<lambda>xss. length (hd xss))"
    by (simp add: hd_map)
qed

declare zip_star.simps [simp del]

text \<open>\<open>range(n)\<close> for an integer \<open>n\<close>: empty when \<open>n \<le> 0\<close>.\<close>

definition range_py :: "int \<Rightarrow> nat list" where
  "range_py n = [0 ..< nat n]"

text \<open>
  \<open>return zip(*[words[i:] for i in range(n)])\<close>. The slice \<open>words[i:]\<close> with
  \<open>0 \<le> i\<close> is \<open>drop i words\<close>, empty when \<open>i\<close> is beyond the end. A window is a
  tuple of strings, modelled as a list.
\<close>

definition generate_ngrams :: "'a list \<Rightarrow> int \<Rightarrow> 'a list iterator" where
  "generate_ngrams words n = Iterator (zip_star (map (\<lambda>i. drop i words) (range_py n)))"

subsection \<open>What the libraries provide\<close>

datatype datetime = Datetime int int int int int int

text \<open>
  The library objects the script works with. \<open>strptime\<close> is
  \<open>datetime.datetime.strptime(_, "%Y-%m-%d %H:%M:%S")\<close>, with \<open>None\<close> for its
  \<open>ValueError\<close>; \<open>polarity_compound\<close> is
  \<open>SentimentIntensityAnalyzer().polarity_scores(_)['compound']\<close>; \<open>lower\<close>,
  \<open>isalpha_char\<close> and \<open>isspace_char\<close> are \<open>str.lower\<close> and the character classes
  behind \<open>str.isalpha\<close> and \<open>str.strip\<close>.
\<close>

record library =
  word_tokenize :: "string \<Rightarrow> string list"
  stopwords_english :: "string list"
  polarity_compound :: "string \<Rightarrow> real"
  strptime :: "string \<Rightarrow> datetime option"
  isoformat :: "datetime \<Rightarrow> string"
  lower :: "string \<Rightarrow> string"
  isalpha_char :: "char \<Rightarrow> bool"
  isspace_char :: "char \<Rightarrow> bool"

datatype py_error =
  FileNotFoundError | PermissionError | IsADirectoryError | NotADirectoryError
  | FileExistsError | OSError

subsection \<open>Strings\<close>

text \<open>\<open>s.strip()\<close>: whitespace removed at both ends.\<close>

definition strip :: "library \<Rightarrow> string \<Rightarrow> string" where
  "strip lib s = rev (dropWhile (isspace_char lib) (rev (dropWhile (isspace_char lib) s)))"

text \<open>\<open>s.isalpha()\<close>: at least one character, and all of them alphabetic.\<close>

definition isalpha :: "library \<Rightarrow> string \<Rightarrow> bool" where
  "isalpha lib s \<longleftrightarrow> s \<noteq> [] \<and> list_all (isalpha_char lib) s"

text \<open>\<open>needle in haystack\<close> on strings: the needle occurs as a contiguous substring.\<close>

fun str_in :: "string \<Rightarrow> string \<Rightarrow> bool" where
  "str_in needle [] = (needle = [])"
| "str_in needle (c # cs) = (prefix needle (c # cs) \<or> str_in needle cs)"

text \<open>\<open>line.split("|", 1)\<close>: at most one split, at the first bar.\<close>

definition split_bar :: "string \<Rightarrow> string list" where
  "split_bar line =
     (if CHR ''|'' \<in> set line
      then [takeWhile (\<lambda>c. c \<noteq> CHR ''|'') line, tl (dropWhile (\<lambda>c. c \<noteq> CHR ''|'') line)]
      else [line])"

text \<open>\<open>'_'.join(ngram)\<close>.\<close>

fun join_underscore :: "string list \<Rightarrow> string" where
  "join_underscore [] = []"
| "join_underscore [x] = x"
| "join_underscore (x # y # ys) = x @ CHR ''_'' # join_underscore (y # ys)"

subsection \<open>parse\_line and tokenize\_and\_clean\<close>

text \<open>
  The unpacking \<open>timestamp, text = line.split("|", 1)\<close> raises \<open>ValueError\<close> when the
  line has no bar, and \<open>strptime\<close> raises it when the left part is no timestamp; both
  end in the \<open>except\<close> branch.
\<close>

definition parse_line :: "library \<Rightarrow> string \<Rightarrow> datetime option \<times> string" where
  "parse_line lib line =
     (case split_bar line of
        [timestamp, text] \<Rightarrow>
          (case strptime lib (strip lib timestamp) of
             Some ts \<Rightarrow> (Some ts, strip lib text)
           | None \<Rightarrow> (None, strip lib line))
      | _ \<Rightarrow> (None, strip lib line))"

definition tokenize_and_clean :: "library \<Rightarrow> string \<Rightarrow> string set \<Rightarrow> string list" where
  "tokenize_and_clean lib text stop_words =
     filter (\<lambda>word. word \<notin> stop_words \<and> isalpha lib word)
       (word_tokenize lib (lower lib text))"

subsection \<open>Counter\<close>

text \<open>
  A \<open>Counter\<close> is a dict: its items in insertion order. \<open>counter_add k n c\<close> is
  \<open>c[k] = c.get(k, 0) + n\<close>: an existing key keeps its place, a new one goes last.
  \<open>counter_get\<close> is \<open>c[k]\<close>, which is 0 for a missing key.
\<close>

type_synonym 'k counter = "('k \<times> int) list"

fun counter_add :: "'k \<Rightarrow> int \<Rightarrow> 'k counter \<Rightarrow> 'k counter" where
  "counter_add k n [] = [(k, n)]"
| "counter_add k n ((k', v) # c) =
     (if k = k' then (k', v + n) # c else (k', v) # counter_add k n c)"

fun counter_get :: "'k counter \<Rightarrow> 'k \<Rightarrow> int" where
  "counter_get [] k = 0"
| "counter_get ((k', v) # c) k = (if k = k' then v else counter_get c k)"

text \<open>\<open>c.update(iterable)\<close>: one more for each element, in order.\<close>

definition counter_update :: "'k counter \<Rightarrow> 'k list \<Rightarrow> 'k counter" where
  "counter_update c elems = foldl (\<lambda>c elem. counter_add elem 1 c) c elems"

text \<open>
  \<open>c.update(mapping)\<close>: the counts of the mapping are added; an empty counter takes the
  mapping's items over as they are (\<open>dict.update\<close>).
\<close>

definition counter_update_mapping :: "'k counter \<Rightarrow> 'k counter \<Rightarrow> 'k counter" where
  "counter_update_mapping c m =
     (if c \<noteq> [] then foldl (\<lambda>c (elem, count). counter_add elem count c) c m else m)"

text \<open>
  \<open>c.most_common(n)\<close> is \<open>heapq.nlargest(n, c.items(), key=itemgetter(1))\<close>: the first
  \<open>n\<close> items of the stable sort by descending count, and nothing for \<open>n \<le> 0\<close>.
\<close>

definition most_common :: "'k counter \<Rightarrow> int \<Rightarrow> ('k \<times> int) list" where
  "most_common c n = take (nat n) (sort_key (\<lambda>item. - snd item) c)"

text \<open>\<open>dict(pairs)\<close>: a later pair with a key already present replaces its value in place.\<close>

fun dict_set :: "'k \<Rightarrow> 'v \<Rightarrow> ('k \<times> 'v) list \<Rightarrow> ('k \<times> 'v) list" where
  "dict_set k v [] = [(k, v)]"
| "dict_set k v ((k', v') # d) =
     (if k = k' then (k', v) # d else (k', v') # dict_set k v d)"

definition dict_of :: "('k \<times> 'v) list \<Rightarrow> ('k \<times> 'v) list" where
  "dict_of pairs = foldl (\<lambda>d (k, v). dict_set k v d) [] pairs"

text \<open>The invariant of a dict: no key twice.\<close>

definition dict_inv :: "('k \<times> 'v) list \<Rightarrow> bool" where
  "dict_inv d \<longleftrightarrow> distinct (map fst d)"

text \<open>\<open>xs[:n]\<close>: a negative \<open>n\<close> counts from the end.\<close>

definition slice_to :: "'a list \<Rightarrow> int \<Rightarrow> 'a list" where
  "slice_to xs n =
     (if 0 \<le> n then take (nat n) xs else take (nat (int (length xs) + n)) xs)"

subsection \<open>categorize\_issues\<close>

definition categorize_issues :: "string \<Rightarrow> (string \<times> string list) list \<Rightarrow> string counter" where
  "categorize_issues text issue_keywords =
     foldl (\<lambda>categories (category, keywords).
              if list_ex (\<lambda>keyword. str_in keyword text) keywords
              then counter_update categories [category]
              else categories)
       [] issue_keywords"

definition resolution_phrases :: "string list" where
  "resolution_phrases = [''resolved'', ''will get back to you'', ''solution'', ''fixed'']"

definition issue_keywords :: "(string \<times> string list) list" where
  "issue_keywords =
     [(''billing'', [''invoice'', ''billing'', ''charge'', ''payment'']),
      (''technical'', [''error'', ''problem'', ''bug'', ''issue'']),
      (''support'', [''help'', ''support'', ''service'', ''assistance''])]"

subsection \<open>analyze\_text\<close>

text \<open>The seven collections that \<open>analyze_text\<close> builds and returns as a tuple.\<close>

record analysis =
  word_freq :: "string counter"
  ngram_freq :: "string list counter"
  entity_freq :: "string counter"
  question_freq :: "string counter"
  sentiment_time_series :: "(string \<times> real) list"
  resolutions :: "string counter"
  issue_categories :: "string counter"

definition empty_analysis :: analysis where
  "empty_analysis =
     \<lparr>word_freq = [], ngram_freq = [], entity_freq = [], question_freq = [],
      sentiment_time_series = [], resolutions = [], issue_categories = []\<rparr>"

text \<open>
  The body of the loop \<open>for line in file\<close>. \<open>nlp\<close> gives the texts of the entities of
  a text (\<open>[ent.text for ent in nlp(text).ents]\<close>).
\<close>

definition analyze_line ::
  "library \<Rightarrow> (string \<Rightarrow> string list) \<Rightarrow> int \<Rightarrow> string set \<Rightarrow> analysis \<Rightarrow> string \<Rightarrow> analysis"
where
  "analyze_line lib nlp ngram_size stop_words st line =
     (let (timestamp, text) = parse_line lib line;
          words = tokenize_and_clean lib text stop_words;
          sentiment = polarity_compound lib text
      in st\<lparr>word_freq := counter_update (word_freq st) words,
            ngram_freq :=
              counter_update (ngram_freq st) (fst (consume (generate_ngrams words ngram_size))),
            entity_freq := counter_update (entity_freq st) (nlp text),
            question_freq :=
              counter_update (question_freq st) (if str_in ''?'' text then [text] else []),
            sentiment_time_series :=
              (case timestamp of
                 Some ts \<Rightarrow> sentiment_time_series st @ [(isoformat lib ts, sentiment)]
               | None \<Rightarrow> sentiment_time_series st),
            resolutions :=
              (if list_ex (\<lambda>phrase. str_in phrase text) resolution_phrases
               then counter_update (resolutions st) [text]
               else resolutions st),
            issue_categories :=
              counter_update_mapping (issue_categories st)
                (categorize_issues text issue_keywords)\<rparr>)"

definition analyze_lines ::
  "library \<Rightarrow> (string \<Rightarrow> string list) \<Rightarrow> int \<Rightarrow> string list \<Rightarrow> analysis"
where
  "analyze_lines lib nlp ngram_size lines =
     foldl (analyze_line lib nlp ngram_size (set (stopwords_english lib))) empty_analysis lines"

text \<open>
  \<open>open_r file_path\<close> is what \<open>open(file_path, 'r', encoding='utf-8')\<close> does: it raises
  an error, or gives the lines that iterating the file yields. The result is \<open>Inl e\<close> when
  the call raises \<open>e\<close>, \<open>Inr None\<close> when it returns \<open>None\<close>, and \<open>Inr (Some r)\<close> when it
  returns the tuple \<open>r\<close>. Only \<open>FileNotFoundError\<close> is caught. (The message printed in
  that branch is not part of the model.)
\<close>

definition analyze_text ::
  "library \<Rightarrow> (string \<Rightarrow> py_error + string list) \<Rightarrow> string \<Rightarrow> (string \<Rightarrow> string list) \<Rightarrow> int
   \<Rightarrow> py_error + analysis option"
where
  "analyze_text lib open_r file_path nlp ngram_size =
     (case open_r file_path of
        Inr lines \<Rightarrow> Inr (Some (analyze_lines lib nlp ngram_size lines))
      | Inl e \<Rightarrow> if e = FileNotFoundError then Inr None else Inl e)"

subsection \<open>What a line contributes\<close>

text \<open>
  The text of a line, its cleaned tokens and its windows, as the loop body computes
  them; and, for each frequency table, the number of occurrences that the lines
  contribute to a key.
\<close>

definition line_text :: "library \<Rightarrow> string \<Rightarrow> string" where
  "line_text lib line = snd (parse_line lib line)"

definition line_words :: "library \<Rightarrow> string \<Rightarrow> string list" where
  "line_words lib line = tokenize_and_clean lib (line_text lib line) (set (stopwords_english lib))"

definition line_ngrams :: "library \<Rightarrow> int \<Rightarrow> string \<Rightarrow> string list list" where
  "line_ngrams lib n line = fst (consume (generate_ngrams (line_words lib line) n))"

definition word_occurrences :: "library \<Rightarrow> string list \<Rightarrow> string \<Rightarrow> nat" where
  "word_occurrences lib lines w = count_list (concat (map (line_words lib) lines)) w"

definition ngram_occurrences :: "library \<Rightarrow> int \<Rightarrow> string list \<Rightarrow> string list \<Rightarrow> nat" where
  "ngram_occurrences lib n lines g = count_list (concat (map (line_ngrams lib n) lines)) g"

definition entity_occurrences ::
  "library \<Rightarrow> (string \<Rightarrow> string list) \<Rightarrow> string list \<Rightarrow> string \<Rightarrow> nat" where
  "entity_occurrences lib nlp lines e
     = count_list (concat (map (\<lambda>line. nlp (line_text lib line)) lines)) e"

definition question_occurrences :: "library \<Rightarrow> string list \<Rightarrow> string \<Rightarrow> nat" where
  "question_occurrences lib lines q
     = length (filter (\<lambda>line. line_text lib line = q \<and> str_in ''?'' q) lines)"

definition resolution_occurrences :: "library \<Rightarrow> string list \<Rightarrow> string \<Rightarrow> nat" where
  "resolution_occurrences lib lines r
     = length (filter (\<lambda>line. line_text lib line = r \<and>
         list_ex (\<lambda>phrase. str_in phrase r) resolution_phrases) lines)"

subsection \<open>save\_to\_json\<close>

text \<open>The dict \<open>limited_data\<close>, with its seven keys.\<close>

record limited_data =
  json_word_freq :: "(string \<times> int) list"
  json_ngram_freq :: "(string \<times> int) list"
  json_entity_freq :: "(string \<times> int) list"
  json_question_freq :: "(string \<times> int) list"
  json_sentiment_time_series :: "(string \<times> real) list"
  json_resolutions :: "(string \<times> int) list"
  json_issue_categories :: "(string \<times> int) list"

definition ngram_to_string :: "string list \<Rightarrow> string" where
  "ngram_to_string ngram = join_underscore ngram"

definition limit_data :: "analysis \<Rightarrow> int \<Rightarrow> limited_data" where
  "limit_data data save_n =
     \<lparr>json_word_freq = dict_of (most_common (word_freq data) save_n),
      json_ngram_freq =
        dict_of (map (\<lambda>(k, v). (ngram_to_string k, v)) (most_common (ngram_freq data) save_n)),
      json_entity_freq = dict_of (most_common (entity_freq data) save_n),
      json_question_freq = dict_of (most_common (question_freq data) save_n),
      json_sentiment_time_series = slice_to (sentiment_time_series data) save_n,
      json_resolutions = dict_of (most_common (resolutions data) save_n),
      json_issue_categories = dict_of (issue_categories data)\<rparr>"

text \<open>
  What the operating system does in a run of \<open>save_to_json\<close>, for the file system as
  it is at that moment: the error that \<open>os.makedirs(name, exist_ok=True)\<close> raises on a
  non-empty name, if any; the error that \<open>open(path, 'w', encoding='utf-8')\<close> raises, if
  any; and how many bytes of the file object's output it takes before a write fails
  (\<open>None\<close>: it takes them all).
\<close>

record os_behaviour =
  makedirs_error :: "string \<Rightarrow> py_error option"
  open_error :: "string \<Rightarrow> py_error option"
  write_room :: "nat option"

text \<open>\<open>os.path.dirname\<close> (posixpath): everything up to the last slash, without trailing
  slashes unless it consists of slashes only.\<close>

definition dirname :: "string \<Rightarrow> string" where
  "dirname p =
     (let head = rev (dropWhile (\<lambda>c. c \<noteq> CHR ''/'') (rev p))
      in if head \<noteq> [] \<and> \<not> list_all (\<lambda>c. c = CHR ''/'') head
         then rev (dropWhile (\<lambda>c. c = CHR ''/'') (rev head))
         else head)"

text \<open>
  \<open>os.makedirs(name, exist_ok=True)\<close>, as the error it raises, if any. On the empty
  name it raises \<open>FileNotFoundError\<close> on every file system: \<open>mkdir('')\<close> fails, and
  \<open>exist_ok\<close> does not forgive it, since the empty path is no directory. On any other
  name the operating system decides.
\<close>

definition makedirs :: "os_behaviour \<Rightarrow> string \<Rightarrow> py_error option" where
  "makedirs os name = (if name = [] then Some FileNotFoundError else makedirs_error os name)"

text \<open>
  \<open>json.dump(obj, f)\<close> hands the chunks of the encoder to the file object one after the
  other (\<open>for chunk in iterable: fp.write(chunk)\<close>), and the \<open>with\<close> statement closes
  the file. The file object is buffered, so what reaches the file is a sequence of bytes
  of the whole text: all of it, or, when the operating system has room for fewer bytes,
  the bytes it took before the failing write. The result is what the file holds and the
  error raised, if any.
\<close>

definition write_text :: "os_behaviour \<Rightarrow> string \<Rightarrow> string \<times> py_error option" where
  "write_text os text =
     (case write_room os of
        None \<Rightarrow> (text, None)
      | Some b \<Rightarrow> if b < length text then (take b text, Some OSError) else (text, None))"

text \<open>
  \<open>iterencode\<close> is the JSON encoder that \<open>json.dump\<close> runs with \<open>ensure_ascii=False\<close>
  and \<open>indent=4\<close>: the chunks of the text of \<open>limited_data\<close>. \<open>old\<close> is what the file
  at \<open>output_file\<close> holds before the call (\<open>None\<close>: there is no such file); the result
  is what it holds after the call, and the error that the call raised, if any. Opening
  the file for writing creates it, or empties it when it exists. (The message printed on
  success is not part of the model.)
\<close>

definition save_to_json ::
  "(limited_data \<Rightarrow> string list) \<Rightarrow> os_behaviour \<Rightarrow> string option \<Rightarrow> analysis \<Rightarrow> string \<Rightarrow> int
   \<Rightarrow> string option \<times> py_error option"
where
  "save_to_json iterencode os old data output_file save_n =
     (let limited = limit_data data save_n in
      case makedirs os (dirname output_file) of
        Some e \<Rightarrow> (old, Some e)
      | None \<Rightarrow>
          (case open_error os output_file of
             Some e \<Rightarrow> (old, Some e)
           | None \<Rightarrow>
               (let (written, error) = write_text os (concat (iterencode limited))
                in (Some written, error))))"

subsection \<open>What the export is to select\<close>

text \<open>
  \<open>is_top_k c k r\<close>: the list \<open>r\<close> holds the \<open>k\<close> entries of the table \<open>c\<close> with the
  highest counts (all of them when there are fewer), in descending order of count; the
  entries of one count are the first ones of \<open>c\<close> with that count, in the order of
  \<open>c\<close>.
\<close>

definition is_top_k :: "'k counter \<Rightarrow> nat \<Rightarrow> ('k \<times> int) list \<Rightarrow> bool" where
  "is_top_k c k r \<longleftrightarrow>
     length r = min k (length c) \<and>
     set r \<subseteq> set c \<and>
     distinct (map fst r) \<and>
     sorted_wrt (\<lambda>a b. snd a \<ge> snd b) r \<and>
     (\<forall>a \<in> set r. \<forall>b \<in> set c - set r. snd b \<le> snd a) \<and>
     (\<forall>v. prefix (filter (\<lambda>e. snd e = v) r) (filter (\<lambda>e. snd e = v) c))"

text \<open>
  The keys of an n-gram table: tuples of one length whose tokens hold no underscore.
  \<open>analysis_inv\<close> collects this and the dict invariant of the six tables.
\<close>

definition ngram_keys_inv :: "string list counter \<Rightarrow> bool" where
  "ngram_keys_inv c \<longleftrightarrow>
     list_all (\<lambda>g. list_all (\<lambda>h. length g = length h) (map fst c) \<and>
                    list_all (\<lambda>token. CHR ''_'' \<notin> set token) g)
       (map fst c)"

definition analysis_inv :: "analysis \<Rightarrow> bool" where
  "analysis_inv data \<longleftrightarrow>
     dict_inv (word_freq data) \<and> dict_inv (ngram_freq data) \<and> dict_inv (entity_freq data) \<and>
     dict_inv (question_freq data) \<and> dict_inv (resolutions data) \<and>
     dict_inv (issue_categories data) \<and> ngram_keys_inv (ngram_freq data)"

text \<open>A text matches a category when one of the category's keywords is a substring of it.\<close>

definition category_matches :: "string \<Rightarrow> string list \<Rightarrow> bool" where
  "category_matches text keywords \<longleftrightarrow> (\<exists>keyword \<in> set keywords. sublist keyword text)"

subsection \<open>Example inputs\<close>

text \<open>A small library, a small file and a small result, for the examples below.\<close>

fun split_spaces :: "string \<Rightarrow> string \<Rightarrow> string list" where
  "split_spaces acc [] = [rev acc]"
| "split_spaces acc (c # cs) =
     (if c = CHR '' '' then rev acc # split_spaces [] cs else split_spaces (c # acc) cs)"

definition example_library :: library where
  "example_library =
     \<lparr>word_tokenize = split_spaces [],
      stopwords_english = [''the'', ''in''],
      polarity_compound =
        (\<lambda>s. if str_in ''help'' s then 1 / 2 else if str_in ''thanks'' s then 1 / 4 else 0),
      strptime =
        (\<lambda>s. if s = ''2024-01-02 09:30:00'' then Some (Datetime 2024 1 2 9 30 0)
             else if s = ''2024-01-01 10:00:00'' then Some (Datetime 2024 1 1 10 0 0)
             else None),
      isoformat =
        (\<lambda>d. if d = Datetime 2024 1 2 9 30 0 then ''2024-01-02T09:30:00''
             else ''2024-01-01T10:00:00''),
      lower = (\<lambda>s. s),
      isalpha_char = (\<lambda>c. c \<in> set ''abcdefghijklmnopqrstuvwxyz''),
      isspace_char = (\<lambda>c. c = CHR '' '' \<or> c = CHR 0x0A)\<rparr>"

definition example_nlp :: "string \<Rightarrow> string list" where
  "example_nlp text = (if str_in ''Alice'' text then [''Alice''] else [])"

definition example_lines :: "string list" where
  "example_lines =
     [''2024-01-02 09:30:00 | help me'',
      ''just checking in'',
      ''yesterday | fixed'',
      ''where is Alice?'',
      ''2024-01-01 10:00:00 | thanks'']"

text \<open>A directory with one file, which holds the lines above.\<close>

definition example_open_r :: "string \<Rightarrow> py_error + string list" where
  "example_open_r path = (if path = ''log.txt'' then Inr example_lines else Inl FileNotFoundError)"

definition example_analysis :: analysis where
  "example_analysis =
     \<lparr>word_freq = [(''help'', 1), (''fixed'', 2), (''me'', 1), (''bug'', 2)],
      ngram_freq = [([''help'', ''me''], 1), ([''me'', ''help''], 3)],
      entity_freq = [],
      question_freq = [],
      sentiment_time_series = [(''2024-01-01T10:00:00'', 1 / 2)],
      resolutions = [(''fixed'', 1)],
      issue_categories = [(''support'', 2), (''billing'', 1)]\<rparr>"

text \<open>The chunks that the encoder yields for a \<open>limited_data\<close> whose seven values are empty.\<close>

definition example_iterencode :: "limited_data \<Rightarrow> string list" where
  "example_iterencode limited =
     (let quoted = (\<lambda>s. CHR 0x22 # s @ [CHR 0x22]);
          newline_indent = CHR 0x0A # ''    '';
          item_separator = '','' @ newline_indent
      in [''{'', newline_indent,
          quoted ''word_freq'', '': '', ''{}'', item_separator,
          quoted ''ngram_freq'', '': '', ''{}'', item_separator,
          quoted ''entity_freq'', '': '', ''{}'', item_separator,
          quoted ''question_freq'', '': '', ''{}'', item_separator,
          quoted ''sentiment_time_series'', '': '', ''[]'', item_separator,
          quoted ''resolutions'', '': '', ''{}'', item_separator,
          quoted ''issue_categories'', '': '', ''{}'',
          [CHR 0x0A], ''}''])"

text \<open>
  An encoder that writes the keys of the six mappings, each followed by a space, one
  chunk for each mapping.
\<close>

definition example_keys_iterencode :: "limited_data \<Rightarrow> string list" where
  "example_keys_iterencode limited =
     map (\<lambda>mapping. concat (map (\<lambda>(k, v). k @ '' '') mapping))
       [json_word_freq limited, json_ngram_freq limited, json_entity_freq limited,
        json_question_freq limited, json_resolutions limited, json_issue_categories limited]"

text \<open>An operating system on which nothing fails, and one with room for five bytes.\<close>

definition example_os :: os_behaviour where
  "example_os =
     \<lparr>makedirs_error = (\<lambda>name. None), open_error = (\<lambda>path. None), write_room = None\<rparr>"

definition example_os_full :: os_behaviour where
  "example_os_full =
     \<lparr>makedirs_error = (\<lambda>name. None), open_error = (\<lambda>path. None), write_room = Some 5\<rparr>"

section \<open>Properties\<close>

subsection \<open>The windows of generate\_ngrams\<close>

lemma zip_star_Nil: "zip_star [] = []"
  by (simp add: zip_star.simps)

lemma zip_star_drops:
  assumes "0 < n"
  shows "zip_star (map (\<lambda>i. drop i ws) [0 ..< n])
         = map (\<lambda>k. take n (drop k ws)) [0 ..< length ws + 1 - n]"
  using assms
proof (induction ws)
  case Nil
  have "[] \<in> set (map (\<lambda>i. drop i ([]::'a list)) [0 ..< n])"
    using Nil by auto
  then have "zip_star (map (\<lambda>i. drop i ([]::'a list)) [0 ..< n]) = []"
    by (subst zip_star.simps) auto
  moreover have "length ([]::'a list) + 1 - n = 0"
    using Nil by simp
  ultimately show ?case by simp
next
  case (Cons w ws)
  let ?xss = "map (\<lambda>i. drop i (w # ws)) [0 ..< n]"
  show ?case
  proof (cases "n \<le> length (w # ws)")
    case False
    then have "drop (n - 1) (w # ws) = []" using Cons.prems by simp
    moreover have "n - 1 \<in> set [0 ..< n]" using Cons.prems by simp
    ultimately have "[] \<in> set ?xss"
      by (metis (mono_tags, lifting) image_eqI set_map)
    then have "zip_star ?xss = []"
      by (subst zip_star.simps) auto
    moreover have "length (w # ws) + 1 - n = 0" using False by simp
    ultimately show ?thesis by simp
  next
    case True
    have nonempty: "?xss \<noteq> []" using Cons.prems by simp
    have no_nil: "\<not> (\<exists>xs \<in> set ?xss. xs = [])"
      using True by auto
    have heads: "map hd ?xss = take n (w # ws)"
    proof (rule nth_equalityI)
      show "length (map hd ?xss) = length (take n (w # ws))" using True by simp
    next
      fix i assume "i < length (map hd ?xss)"
      then have "i < n" by simp
      with True show "map hd ?xss ! i = take n (w # ws) ! i"
        by (simp add: hd_drop_conv_nth)
    qed
    have tails: "map tl ?xss = map (\<lambda>i. drop i ws) [0 ..< n]"
      by (simp add: drop_Suc tl_drop)
    have "zip_star ?xss = map hd ?xss # zip_star (map tl ?xss)"
      using nonempty no_nil by (subst zip_star.simps) simp
    also have "\<dots> = take n (w # ws) # map (\<lambda>k. take n (drop k ws)) [0 ..< length ws + 1 - n]"
      by (simp only: heads tails Cons.IH [OF Cons.prems])
    also have "\<dots> = map (\<lambda>k. take n (drop k (w # ws))) [0 ..< length (w # ws) + 1 - n]"
    proof -
      define m where "m = length ws + 1 - n"
      have eq: "length (w # ws) + 1 - n = Suc m"
        using True by (simp add: m_def)
      have "map (\<lambda>k. take n (drop k (w # ws))) [0 ..< Suc m]
            = take n (w # ws) # map (\<lambda>k. take n (drop k ws)) [0 ..< m]"
        by (simp only: map_upt_Suc drop_0 drop_Suc_Cons)
      then show ?thesis
        by (simp only: eq m_def)
    qed
    finally show ?thesis .
  qed
qed

lemma pending_generate_ngrams:
  assumes "1 \<le> n"
  shows "pending (generate_ngrams ws n)
         = map (\<lambda>k. take (nat n) (drop k ws)) [0 ..< length ws + 1 - nat n]"
  using assms zip_star_drops [of "nat n" ws]
  by (simp add: generate_ngrams_def range_py_def)

lemma pending_generate_ngrams_nonpos:
  "n \<le> 0 \<Longrightarrow> pending (generate_ngrams ws n) = []"
  by (simp add: generate_ngrams_def range_py_def zip_star_Nil)

subsection \<open>Counters and dicts\<close>

lemma str_in_sublist: "str_in needle hay \<longleftrightarrow> sublist needle hay"
  by (induction hay) (auto simp: sublist_Cons_right)

lemma counter_get_add:
  "counter_get (counter_add k n c) k' = counter_get c k' + (if k' = k then n else 0)"
  by (induction c) auto

lemma map_fst_counter_add:
  "map fst (counter_add k n c) = (if k \<in> set (map fst c) then map fst c else map fst c @ [k])"
  by (induction c) (force split: if_splits)+

lemma keys_counter_add: "fst ` set (counter_add k n c) = insert k (fst ` set c)"
  using arg_cong [OF map_fst_counter_add [of k n c], of set] by auto

lemma dict_inv_counter_add: "dict_inv c \<Longrightarrow> dict_inv (counter_add k n c)"
proof (induction c)
  case Nil
  then show ?case by (simp add: dict_inv_def)
next
  case (Cons a c)
  obtain k' v where a: "a = (k', v)" by (cases a)
  show ?case
    using Cons.prems by (auto simp: dict_inv_def map_fst_counter_add)
qed

lemma counter_get_update:
  "counter_get (counter_update c elems) k = counter_get c k + int (count_list elems k)"
  unfolding counter_update_def
  by (induction elems arbitrary: c) (auto simp: counter_get_add)

lemma keys_counter_update: "fst ` set (counter_update c elems) = fst ` set c \<union> set elems"
  unfolding counter_update_def
  by (induction elems arbitrary: c) (auto simp: keys_counter_add)

lemma dict_inv_counter_update: "dict_inv c \<Longrightarrow> dict_inv (counter_update c elems)"
  unfolding counter_update_def
  by (induction elems arbitrary: c) (auto simp: dict_inv_counter_add)

lemma counter_get_absent: "k \<notin> fst ` set c \<Longrightarrow> counter_get c k = 0"
  by (induction c) auto

lemma counter_get_foldl_mapping:
  "dict_inv m \<Longrightarrow>
   counter_get (foldl (\<lambda>c (elem, count). counter_add elem count c) c m) k
     = counter_get c k + counter_get m k"
proof (induction m arbitrary: c)
  case Nil
  then show ?case by simp
next
  case (Cons a m)
  obtain k' v where a: "a = (k', v)" by (cases a)
  from Cons.prems have inv: "dict_inv m" and fresh: "k' \<notin> fst ` set m"
    by (simp_all add: dict_inv_def a)
  show ?case
    using Cons.IH [OF inv] fresh
    by (simp add: a counter_get_add counter_get_absent)
qed

lemma counter_get_update_mapping:
  "dict_inv m \<Longrightarrow>
   counter_get (counter_update_mapping c m) k = counter_get c k + counter_get m k"
  by (simp add: counter_update_mapping_def counter_get_foldl_mapping)

lemma dict_inv_foldl_mapping:
  "dict_inv c \<Longrightarrow> dict_inv (foldl (\<lambda>c (elem, count). counter_add elem count c) c m)"
  by (induction m arbitrary: c) (auto simp: dict_inv_counter_add)

lemma dict_inv_counter_update_mapping:
  "dict_inv c \<Longrightarrow> dict_inv m \<Longrightarrow> dict_inv (counter_update_mapping c m)"
  by (simp add: counter_update_mapping_def dict_inv_foldl_mapping)

lemma dict_set_fresh: "k \<notin> fst ` set d \<Longrightarrow> dict_set k v d = d @ [(k, v)]"
  by (induction d) auto

lemma foldl_dict_set:
  "distinct (map fst (acc @ d)) \<Longrightarrow> foldl (\<lambda>d (k, v). dict_set k v d) acc d = acc @ d"
proof (induction d arbitrary: acc)
  case Nil
  then show ?case by simp
next
  case (Cons a d)
  obtain k v where a: "a = (k, v)" by (cases a)
  from Cons.prems have fresh: "k \<notin> fst ` set acc" by (auto simp: a)
  from Cons.prems have "distinct (map fst ((acc @ [(k, v)]) @ d))" by (simp add: a)
  from Cons.IH [OF this] show ?case
    by (simp add: a dict_set_fresh [OF fresh])
qed

lemma dict_of_dict: "dict_inv d \<Longrightarrow> dict_of d = d"
  using foldl_dict_set [of "[]" d] by (simp add: dict_of_def dict_inv_def)

lemma dict_inv_categorize_issues: "dict_inv (categorize_issues text kws)"
proof -
  have "dict_inv c \<Longrightarrow>
        dict_inv (foldl (\<lambda>categories (category, keywords).
              if list_ex (\<lambda>keyword. str_in keyword text) keywords
              then counter_update categories [category]
              else categories) c kws)" for c
    by (induction kws arbitrary: c) (auto simp: dict_inv_counter_update)
  then show ?thesis
    by (simp add: categorize_issues_def dict_inv_def)
qed

lemma analyze_lines_snoc:
  "analyze_lines lib nlp n (ls @ [l])
   = analyze_line lib nlp n (set (stopwords_english lib)) (analyze_lines lib nlp n ls) l"
  by (simp add: analyze_lines_def)

lemma analyze_lines_Nil: "analyze_lines lib nlp n [] = empty_analysis"
  by (simp add: analyze_lines_def)

subsection \<open>The claims about generate\_ngrams\<close>

text \<open>
  Claim C6. For a token sequence of length \<open>L\<close> and a window size \<open>N \<ge> 1\<close>,
  \<open>generate_ngrams\<close> yields exactly \<open>max(0, L - N + 1)\<close> windows, each of length
  \<open>N\<close>, in the original order: the window at position \<open>k\<close> is the \<open>N\<close> tokens from
  offset \<open>k\<close>, for \<open>k = 0, ..., L - N\<close>; with \<open>L < N\<close> there is no window.
\<close>

theorem generate_ngrams_windows:
  assumes "1 \<le> n"
  shows "fst (consume (generate_ngrams ws n))
           = map (\<lambda>k. take (nat n) (drop k ws)) [0 ..< nat (max 0 (int (length ws) - n + 1))]
       \<and> int (length (fst (consume (generate_ngrams ws n)))) = max 0 (int (length ws) - n + 1)
       \<and> (\<forall>w \<in> set (fst (consume (generate_ngrams ws n))). int (length w) = n)
       \<and> (int (length ws) < n \<longrightarrow> fst (consume (generate_ngrams ws n)) = [])"
proof -
  have m: "nat (max 0 (int (length ws) - n + 1)) = length ws + 1 - nat n"
    using assms by auto
  have p: "fst (consume (generate_ngrams ws n))
           = map (\<lambda>k. take (nat n) (drop k ws)) [0 ..< length ws + 1 - nat n]"
    using pending_generate_ngrams [OF assms] by (simp add: consume_def)
  have len: "\<forall>w \<in> set (fst (consume (generate_ngrams ws n))). int (length w) = n"
    unfolding p using assms by auto
  show ?thesis
    using p m len assms by auto
qed

theorem generate_ngrams_windows_witness:
  "(1::int) \<le> 2 \<and>
   fst (consume (generate_ngrams [''a'', ''b'', ''c'', ''d''] 2))
     = [[''a'', ''b''], [''b'', ''c''], [''c'', ''d'']] \<and>
   fst (consume (generate_ngrams [''a''] 2)) = ([] :: string list list)"
  using generate_ngrams_windows [of 2 "[''a'', ''b'', ''c'', ''d'']"]
        generate_ngrams_windows [of 2 "[''a'']"]
  by (simp add: upt_conv_Cons)

text \<open>
  Claim C3, as the code has it. The object that \<open>generate_ngrams\<close> returns is a
  \<open>zip\<close> iterator, a single-use stream: for \<open>N \<ge> 1\<close> the first iteration yields the
  windows at the offsets \<open>0, ..., L - N\<close> and a second iteration of the same object
  yields nothing, so that the two iterations agree only when there is no window at all
  (\<open>L < N\<close>).
\<close>

theorem generate_ngrams_single_use:
  assumes "1 \<le> n"
  shows "iterate_twice (generate_ngrams ws n)
           = (map (\<lambda>k. take (nat n) (drop k ws)) [0 ..< length ws + 1 - nat n], [])
       \<and> (fst (iterate_twice (generate_ngrams ws n)) = snd (iterate_twice (generate_ngrams ws n))
            \<longleftrightarrow> int (length ws) < n)"
proof -
  have "iterate_twice (generate_ngrams ws n) = (pending (generate_ngrams ws n), [])"
    by (simp add: iterate_twice_def consume_def)
  then show ?thesis
    using pending_generate_ngrams [OF assms] assms by auto
qed

theorem generate_ngrams_single_use_witness:
  "(1::int) \<le> 2 \<and>
   iterate_twice (generate_ngrams [''a'', ''b'', ''c''] 2)
     = ([[''a'', ''b''], [''b'', ''c'']], [])"
  using generate_ngrams_single_use [of 2 "[''a'', ''b'', ''c'']"]
  by (simp add: upt_conv_Cons)

text \<open>
  Claim C3 as stated fails: iterating the result for the tokens a, b, c and \<open>N = 2\<close>
  twice yields two windows the first time and none the second time.
\<close>

theorem generate_ngrams_restartable_counterexample:
  "fst (iterate_twice (generate_ngrams [''a'', ''b'', ''c''] 2))
   \<noteq> snd (iterate_twice (generate_ngrams [''a'', ''b'', ''c''] 2))"
  by code_simp

subsection \<open>Lines and timestamps\<close>

lemma parse_line_timestamp:
  "fst (parse_line lib line) \<noteq> None \<longleftrightarrow>
     CHR ''|'' \<in> set line \<and>
     strptime lib (strip lib (takeWhile (\<lambda>c. c \<noteq> CHR ''|'') line)) \<noteq> None"
  by (auto simp: parse_line_def split_bar_def split: option.splits)

lemma parse_line_no_timestamp:
  "fst (parse_line lib line) = None \<Longrightarrow> snd (parse_line lib line) = strip lib line"
  by (auto simp: parse_line_def split_bar_def split: option.splits if_splits)

lemma series_analyze_line:
  "sentiment_time_series (analyze_line lib nlp n sw st line)
   = sentiment_time_series st @
       (case fst (parse_line lib line) of
          Some ts \<Rightarrow> [(isoformat lib ts, polarity_compound lib (snd (parse_line lib line)))]
        | None \<Rightarrow> [])"
  by (cases "parse_line lib line") (simp add: analyze_line_def Let_def split: option.splits)

lemma series_analyze_lines:
  "sentiment_time_series (analyze_lines lib nlp n lines)
   = map (\<lambda>line. (isoformat lib (the (fst (parse_line lib line))),
                   polarity_compound lib (snd (parse_line lib line))))
       (filter (\<lambda>line. fst (parse_line lib line) \<noteq> None) lines)"
proof (induction lines rule: rev_induct)
  case Nil
  then show ?case by (simp add: analyze_lines_Nil empty_analysis_def)
next
  case (snoc l ls)
  then show ?case
    by (simp add: analyze_lines_snoc series_analyze_line split: option.splits)
qed

lemma analyze_line_no_timestamp:
  assumes "fst (parse_line lib line) = None"
  shows "analyze_line lib nlp n sw st line =
     st\<lparr>word_freq := counter_update (word_freq st) (tokenize_and_clean lib (strip lib line) sw),
        ngram_freq := counter_update (ngram_freq st)
           (fst (consume (generate_ngrams (tokenize_and_clean lib (strip lib line) sw) n))),
        entity_freq := counter_update (entity_freq st) (nlp (strip lib line)),
        question_freq := counter_update (question_freq st)
           (if str_in ''?'' (strip lib line) then [strip lib line] else []),
        resolutions :=
           (if list_ex (\<lambda>phrase. str_in phrase (strip lib line)) resolution_phrases
            then counter_update (resolutions st) [strip lib line] else resolutions st),
        issue_categories := counter_update_mapping (issue_categories st)
           (categorize_issues (strip lib line) issue_keywords)\<rparr>"
proof -
  have "parse_line lib line = (None, strip lib line)"
    using assms parse_line_no_timestamp [OF assms] by (cases "parse_line lib line") simp
  then show ?thesis
    by (simp add: analyze_line_def Let_def)
qed

lemma parse_example_line1:
  "parse_line example_library ''2024-01-02 09:30:00 | help me''
   = (Some (Datetime 2024 1 2 9 30 0), ''help me'')"
  by (simp add: parse_line_def split_bar_def strip_def example_library_def)

lemma parse_example_line2: "parse_line example_library ''just checking in'' = (None, ''just checking in'')"
  by (simp add: parse_line_def split_bar_def strip_def example_library_def)

lemma parse_example_line3: "parse_line example_library ''yesterday | fixed'' = (None, ''yesterday | fixed'')"
  by (simp add: parse_line_def split_bar_def strip_def example_library_def)

lemma analyze_line_fields:
  "word_freq (analyze_line lib nlp n sw st line)
     = counter_update (word_freq st) (tokenize_and_clean lib (snd (parse_line lib line)) sw)"
  "ngram_freq (analyze_line lib nlp n sw st line)
     = counter_update (ngram_freq st)
         (fst (consume (generate_ngrams (tokenize_and_clean lib (snd (parse_line lib line)) sw) n)))"
  "entity_freq (analyze_line lib nlp n sw st line)
     = counter_update (entity_freq st) (nlp (snd (parse_line lib line)))"
  "question_freq (analyze_line lib nlp n sw st line)
     = counter_update (question_freq st)
         (if str_in ''?'' (snd (parse_line lib line)) then [snd (parse_line lib line)] else [])"
  "resolutions (analyze_line lib nlp n sw st line)
     = (if list_ex (\<lambda>phrase. str_in phrase (snd (parse_line lib line))) resolution_phrases
        then counter_update (resolutions st) [snd (parse_line lib line)]
        else resolutions st)"
  "issue_categories (analyze_line lib nlp n sw st line)
     = counter_update_mapping (issue_categories st)
         (categorize_issues (snd (parse_line lib line)) issue_keywords)"
  by (cases "parse_line lib line"; simp add: analyze_line_def Let_def)+

lemma word_count_analyze_lines:
  "counter_get (word_freq (analyze_lines lib nlp n lines)) w
   = int (count_list (concat (map (line_words lib) lines)) w)"
proof (induction lines rule: rev_induct)
  case Nil
  then show ?case by (simp add: analyze_lines_Nil empty_analysis_def)
next
  case (snoc l ls)
  then show ?case
    by (simp add: analyze_lines_snoc analyze_line_fields counter_get_update
        line_words_def line_text_def)
qed

lemma ngram_count_analyze_lines:
  "counter_get (ngram_freq (analyze_lines lib nlp n lines)) g
   = int (count_list (concat (map (line_ngrams lib n) lines)) g)"
proof (induction lines rule: rev_induct)
  case Nil
  then show ?case by (simp add: analyze_lines_Nil empty_analysis_def)
next
  case (snoc l ls)
  then show ?case
    by (simp add: analyze_lines_snoc analyze_line_fields counter_get_update
        line_ngrams_def line_words_def line_text_def)
qed

lemma entity_count_analyze_lines:
  "counter_get (entity_freq (analyze_lines lib nlp n lines)) e
   = int (count_list (concat (map (\<lambda>line. nlp (line_text lib line)) lines)) e)"
proof (induction lines rule: rev_induct)
  case Nil
  then show ?case by (simp add: analyze_lines_Nil empty_analysis_def)
next
  case (snoc l ls)
  then show ?case
    by (simp add: analyze_lines_snoc analyze_line_fields counter_get_update line_text_def)
qed

lemma question_count_analyze_lines:
  "counter_get (question_freq (analyze_lines lib nlp n lines)) q
   = int (length (filter (\<lambda>line. line_text lib line = q \<and> str_in ''?'' q) lines))"
proof (induction lines rule: rev_induct)
  case Nil
  then show ?case by (simp add: analyze_lines_Nil empty_analysis_def)
next
  case (snoc l ls)
  then show ?case
    by (auto simp: analyze_lines_snoc analyze_line_fields counter_get_update line_text_def)
qed

lemma resolution_count_analyze_lines:
  "counter_get (resolutions (analyze_lines lib nlp n lines)) r
   = int (length (filter (\<lambda>line. line_text lib line = r \<and>
        list_ex (\<lambda>phrase. str_in phrase r) resolution_phrases) lines))"
proof (induction lines rule: rev_induct)
  case Nil
  then show ?case by (simp add: analyze_lines_Nil empty_analysis_def)
next
  case (snoc l ls)
  then show ?case
    by (auto simp: analyze_lines_snoc analyze_line_fields counter_get_update line_text_def)
qed

lemma dict_inv_analyze_lines:
  "dict_inv (word_freq (analyze_lines lib nlp n lines))"
  "dict_inv (ngram_freq (analyze_lines lib nlp n lines))"
  "dict_inv (entity_freq (analyze_lines lib nlp n lines))"
  "dict_inv (question_freq (analyze_lines lib nlp n lines))"
  "dict_inv (resolutions (analyze_lines lib nlp n lines))"
  "dict_inv (issue_categories (analyze_lines lib nlp n lines))"
  by (induction lines rule: rev_induct;
      simp add: analyze_lines_Nil empty_analysis_def dict_inv_def;
      simp add: analyze_lines_snoc analyze_line_fields dict_inv_counter_update
        dict_inv_counter_update_mapping dict_inv_categorize_issues
        dict_inv_def [symmetric])+

lemma counter_get_entry: "dict_inv c \<Longrightarrow> (k, v) \<in> set c \<Longrightarrow> counter_get c k = v"
  by (induction c) (auto simp: dict_inv_def rev_image_eqI)

lemma parse_example_line4:
  "parse_line example_library ''where is Alice?'' = (None, ''where is Alice?'')"
  by (simp add: parse_line_def split_bar_def strip_def example_library_def)

lemma parse_example_line5:
  "parse_line example_library ''2024-01-01 10:00:00 | thanks''
   = (Some (Datetime 2024 1 1 10 0 0), ''thanks'')"
  by (simp add: parse_line_def split_bar_def strip_def example_library_def)

lemma example_fields:
  "set (stopwords_english example_library) = {''the'', ''in''}"
  "polarity_compound example_library ''help me'' = 1 / 2"
  "polarity_compound example_library ''thanks'' = 1 / 4"
  "isoformat example_library (Datetime 2024 1 2 9 30 0) = ''2024-01-02T09:30:00''"
  "isoformat example_library (Datetime 2024 1 1 10 0 0) = ''2024-01-01T10:00:00''"
  by (simp_all add: example_library_def)

lemma example_words:
  "tokenize_and_clean example_library ''help me'' {''the'', ''in''} = [''help'', ''me'']"
  "tokenize_and_clean example_library ''just checking in'' {''the'', ''in''} = [''just'', ''checking'']"
  "tokenize_and_clean example_library ''yesterday | fixed'' {''the'', ''in''} = [''yesterday'', ''fixed'']"
  "tokenize_and_clean example_library ''where is Alice?'' {''the'', ''in''} = [''where'', ''is'']"
  "tokenize_and_clean example_library ''thanks'' {''the'', ''in''} = [''thanks'']"
  by (simp_all add: tokenize_and_clean_def example_library_def isalpha_def)

lemma example_ngrams:
  "fst (consume (generate_ngrams [a, b] 2)) = [[a, b]]"
  "fst (consume (generate_ngrams [a] 2)) = []"
  using pending_generate_ngrams [of 2 "[a, b]"] pending_generate_ngrams [of 2 "[a]"]
  by (simp_all add: consume_def)

lemma example_categories:
  "categorize_issues ''help me'' issue_keywords = [(''support'', 1)]"
  "categorize_issues ''just checking in'' issue_keywords = []"
  "categorize_issues ''yesterday | fixed'' issue_keywords = []"
  "categorize_issues ''where is Alice?'' issue_keywords = []"
  "categorize_issues ''thanks'' issue_keywords = []"
  by (simp_all add: categorize_issues_def issue_keywords_def counter_update_def)

lemma example_result:
  "analyze_lines example_library example_nlp 2 example_lines =
     \<lparr>word_freq = [(''help'', 1), (''me'', 1), (''just'', 1), (''checking'', 1),
                   (''yesterday'', 1), (''fixed'', 1), (''where'', 1), (''is'', 1),
                   (''thanks'', 1)],
      ngram_freq = [([''help'', ''me''], 1), ([''just'', ''checking''], 1),
                    ([''yesterday'', ''fixed''], 1), ([''where'', ''is''], 1)],
      entity_freq = [(''Alice'', 1)],
      question_freq = [(''where is Alice?'', 1)],
      sentiment_time_series =
        [(''2024-01-02T09:30:00'', 1 / 2), (''2024-01-01T10:00:00'', 1 / 4)],
      resolutions = [(''yesterday | fixed'', 1)],
      issue_categories = [(''support'', 1)]\<rparr>"
  by (simp add: analyze_lines_def example_lines_def analyze_line_def
      parse_example_line1 parse_example_line2 parse_example_line3 parse_example_line4
      parse_example_line5 Let_def
      example_nlp_def example_fields example_words example_ngrams example_categories
      empty_analysis_def counter_update_def counter_update_mapping_def resolution_phrases_def)

text \<open>
  Claim C7. For a file that opens, with the lines \<open>lines\<close>, \<open>analyze_text\<close> returns
  a result, and the sentiment time series of that result has one entry for each line
  with a parsed timestamp, in file order, pairing the ISO string of the timestamp with
  the compound score of the line's text; its length is the number of lines that have a
  bar with a valid timestamp to its left. A line without a parsed timestamp leaves the
  series as it is and updates every other collection, with the whole stripped line as its
  text.
\<close>

theorem sentiment_series_timestamped_lines:
  assumes "open_r file_path = Inr lines"
  shows
   "(\<exists>data. analyze_text lib open_r file_path nlp n = Inr (Some data)
      \<and> data = analyze_lines lib nlp n lines
      \<and> sentiment_time_series data
        = map (\<lambda>line. (isoformat lib (the (fst (parse_line lib line))),
                        polarity_compound lib (snd (parse_line lib line))))
            (filter (\<lambda>line. fst (parse_line lib line) \<noteq> None) lines)
      \<and> length (sentiment_time_series data)
        = length (filter (\<lambda>line. CHR ''|'' \<in> set line \<and>
              strptime lib (strip lib (takeWhile (\<lambda>c. c \<noteq> CHR ''|'') line)) \<noteq> None) lines))
   \<and> (\<forall>st line sw. fst (parse_line lib line) = None \<longrightarrow>
        analyze_line lib nlp n sw st line =
          st\<lparr>word_freq := counter_update (word_freq st) (tokenize_and_clean lib (strip lib line) sw),
             ngram_freq := counter_update (ngram_freq st)
               (fst (consume (generate_ngrams (tokenize_and_clean lib (strip lib line) sw) n))),
             entity_freq := counter_update (entity_freq st) (nlp (strip lib line)),
             question_freq := counter_update (question_freq st)
               (if str_in ''?'' (strip lib line) then [strip lib line] else []),
             resolutions :=
               (if list_ex (\<lambda>phrase. str_in phrase (strip lib line)) resolution_phrases
                then counter_update (resolutions st) [strip lib line] else resolutions st),
             issue_categories := counter_update_mapping (issue_categories st)
               (categorize_issues (strip lib line) issue_keywords)\<rparr>)"
proof -
  have "(\<lambda>line. fst (parse_line lib line) \<noteq> None)
        = (\<lambda>line. CHR ''|'' \<in> set line \<and>
              strptime lib (strip lib (takeWhile (\<lambda>c. c \<noteq> CHR ''|'') line)) \<noteq> None)"
    by (rule ext) (rule parse_line_timestamp)
  then have len: "length (sentiment_time_series (analyze_lines lib nlp n lines))
     = length (filter (\<lambda>line. CHR ''|'' \<in> set line \<and>
           strptime lib (strip lib (takeWhile (\<lambda>c. c \<noteq> CHR ''|'') line)) \<noteq> None) lines)"
    by (simp add: series_analyze_lines)
  have run: "analyze_text lib open_r file_path nlp n = Inr (Some (analyze_lines lib nlp n lines))"
    using assms by (simp add: analyze_text_def)
  show ?thesis
    using run len series_analyze_lines analyze_line_no_timestamp by blast
qed

theorem sentiment_series_timestamped_lines_witness:
  "example_open_r ''log.txt'' = Inr example_lines
   \<and> fst (parse_line example_library ''just checking in'') = None
   \<and> (\<exists>data. analyze_text example_library example_open_r ''log.txt'' example_nlp 2
              = Inr (Some data)
        \<and> sentiment_time_series data
            = [(''2024-01-02T09:30:00'', 1 / 2), (''2024-01-01T10:00:00'', 1 / 4)])
   \<and> sentiment_time_series
        (analyze_line example_library example_nlp 2 {''the'', ''in''} empty_analysis
           ''just checking in'') = []"
proof -
  have opened: "example_open_r ''log.txt'' = Inr example_lines"
    by (simp add: example_open_r_def)
  have none: "fst (parse_line example_library ''just checking in'') = None"
    by (simp add: parse_example_line2)
  show ?thesis
    using opened none
      sentiment_series_timestamped_lines
        [where open_r = example_open_r and file_path = "''log.txt''" and lines = example_lines
           and lib = example_library and nlp = example_nlp and n = 2]
    by (simp add: example_result empty_analysis_def)
qed

subsection \<open>Opening the input file\<close>

text \<open>
  Claim C2, as the code has it. When opening the file raises \<open>FileNotFoundError\<close>,
  \<open>analyze_text\<close> returns \<open>None\<close> and no result; any other error of \<open>open\<close> (an
  unreadable file raises \<open>PermissionError\<close>) is not caught and reaches the caller.
\<close>

theorem analyze_text_open_failure:
  "(open_r file_path = Inl FileNotFoundError
      \<longrightarrow> analyze_text lib open_r file_path nlp ngram_size = Inr None)
   \<and> (\<forall>e. open_r file_path = Inl e \<and> e \<noteq> FileNotFoundError
      \<longrightarrow> analyze_text lib open_r file_path nlp ngram_size = Inl e)"
  by (simp add: analyze_text_def)

theorem analyze_text_open_failure_witness:
  "(\<lambda>p. if p = ''missing.txt'' then Inl FileNotFoundError else Inl PermissionError) ''missing.txt''
     = Inl FileNotFoundError
   \<and> analyze_text example_library
        (\<lambda>p. if p = ''missing.txt'' then Inl FileNotFoundError else Inl PermissionError)
        ''missing.txt'' (\<lambda>t. []) 2 = Inr None
   \<and> analyze_text example_library
        (\<lambda>p. if p = ''missing.txt'' then Inl FileNotFoundError else Inl PermissionError)
        ''secret.txt'' (\<lambda>t. []) 2 = Inl PermissionError"
  using analyze_text_open_failure [of "\<lambda>p. if p = ''missing.txt'' then Inl FileNotFoundError else Inl PermissionError"
          "''missing.txt''" example_library "\<lambda>t. []" 2]
        analyze_text_open_failure [of "\<lambda>p. if p = ''missing.txt'' then Inl FileNotFoundError else Inl PermissionError"
          "''secret.txt''" example_library "\<lambda>t. []" 2]
  by simp

text \<open>
  Claim C2 as stated fails for a file that exists and cannot be read: \<open>open\<close> raises
  \<open>PermissionError\<close>, and \<open>analyze_text\<close> raises it instead of returning \<open>None\<close>.
\<close>

theorem analyze_text_unreadable_counterexample:
  "analyze_text example_library (\<lambda>p. Inl PermissionError) ''secret.txt'' (\<lambda>t. []) 2
   \<noteq> Inr None"
  by (simp add: analyze_text_def)

subsection \<open>Export with nothing to keep\<close>

lemma save_to_json_no_error:
  assumes "snd (save_to_json iterencode os old data output_file save_n) = None"
  shows "fst (save_to_json iterencode os old data output_file save_n)
         = Some (concat (iterencode (limit_data data save_n)))"
  using assms
  by (auto simp: save_to_json_def write_text_def split: option.splits if_splits)

text \<open>
  Claim C10. With \<open>save_n = 0\<close> the five frequency mappings and the sentiment series
  of \<open>limited_data\<close> are empty, and \<open>issue_categories\<close> holds the whole tally of every
  category; and that is what a run of \<open>save_to_json\<close> without error writes. (The tally
  is a dict: no category occurs in it twice.)
\<close>

theorem limit_data_zero:
  "dict_inv (issue_categories data) \<Longrightarrow>
   limit_data data 0 =
     \<lparr>json_word_freq = [], json_ngram_freq = [], json_entity_freq = [],
      json_question_freq = [], json_sentiment_time_series = [], json_resolutions = [],
      json_issue_categories = issue_categories data\<rparr>
   \<and> (snd (save_to_json iterencode os old data output_file 0) = None \<longrightarrow>
        fst (save_to_json iterencode os old data output_file 0)
          = Some (concat (iterencode
              \<lparr>json_word_freq = [], json_ngram_freq = [], json_entity_freq = [],
               json_question_freq = [], json_sentiment_time_series = [], json_resolutions = [],
               json_issue_categories = issue_categories data\<rparr>)))"
proof -
  assume inv: "dict_inv (issue_categories data)"
  have limited: "limit_data data 0 =
     \<lparr>json_word_freq = [], json_ngram_freq = [], json_entity_freq = [],
      json_question_freq = [], json_sentiment_time_series = [], json_resolutions = [],
      json_issue_categories = issue_categories data\<rparr>"
    using inv
    by (simp add: limit_data_def most_common_def slice_to_def dict_of_dict) (simp add: dict_of_def)
  show ?thesis
    using limited save_to_json_no_error [of iterencode os old data output_file 0] by simp
qed

theorem limit_data_zero_witness:
  "dict_inv (issue_categories example_analysis) \<and>
   limit_data example_analysis 0 =
     \<lparr>json_word_freq = [], json_ngram_freq = [], json_entity_freq = [],
      json_question_freq = [], json_sentiment_time_series = [], json_resolutions = [],
      json_issue_categories = [(''support'', 2), (''billing'', 1)]\<rparr>
   \<and> save_to_json example_keys_iterencode example_os None example_analysis ''out/summary.json'' 0
       = (Some ''support billing '', None)"
proof -
  have inv: "dict_inv (issue_categories example_analysis)"
    by (simp add: example_analysis_def dict_inv_def)
  have ok: "snd (save_to_json example_keys_iterencode example_os None example_analysis
              ''out/summary.json'' 0) = None"
    by (simp add: save_to_json_def makedirs_def write_text_def example_os_def dirname_def)
  show ?thesis
    using inv ok
      limit_data_zero [OF inv, of example_keys_iterencode example_os None "''out/summary.json''"]
    by (simp add: example_analysis_def example_keys_iterencode_def prod_eq_iff)
qed

subsection \<open>The counts of the frequency tables\<close>

text \<open>
  Claim C9. After any number of lines of a run of \<open>analyze_text\<close>, the count of every
  key in the word, n-gram, entity, question and resolution tables is the number of
  occurrences that the lines processed so far contribute to that key, every stored
  count is a non-negative integer of that value, and processing further lines never
  makes a count smaller.
\<close>

theorem frequency_counts_invariant:
  "(\<forall>k. counter_get (word_freq (analyze_lines lib nlp n lines)) k = int (word_occurrences lib lines k))
  \<and> (\<forall>k. counter_get (ngram_freq (analyze_lines lib nlp n lines)) k = int (ngram_occurrences lib n lines k))
  \<and> (\<forall>k. counter_get (entity_freq (analyze_lines lib nlp n lines)) k = int (entity_occurrences lib nlp lines k))
  \<and> (\<forall>k. counter_get (question_freq (analyze_lines lib nlp n lines)) k = int (question_occurrences lib lines k))
  \<and> (\<forall>k. counter_get (resolutions (analyze_lines lib nlp n lines)) k = int (resolution_occurrences lib lines k))
  \<and> (\<forall>(k, v) \<in> set (word_freq (analyze_lines lib nlp n lines)). 0 \<le> v \<and> v = int (word_occurrences lib lines k))
  \<and> (\<forall>(k, v) \<in> set (ngram_freq (analyze_lines lib nlp n lines)). 0 \<le> v \<and> v = int (ngram_occurrences lib n lines k))
  \<and> (\<forall>(k, v) \<in> set (entity_freq (analyze_lines lib nlp n lines)). 0 \<le> v \<and> v = int (entity_occurrences lib nlp lines k))
  \<and> (\<forall>(k, v) \<in> set (question_freq (analyze_lines lib nlp n lines)). 0 \<le> v \<and> v = int (question_occurrences lib lines k))
  \<and> (\<forall>(k, v) \<in> set (resolutions (analyze_lines lib nlp n lines)). 0 \<le> v \<and> v = int (resolution_occurrences lib lines k))
  \<and> (\<forall>more k. counter_get (word_freq (analyze_lines lib nlp n lines)) k
        \<le> counter_get (word_freq (analyze_lines lib nlp n (lines @ more))) k)
  \<and> (\<forall>more k. counter_get (ngram_freq (analyze_lines lib nlp n lines)) k
        \<le> counter_get (ngram_freq (analyze_lines lib nlp n (lines @ more))) k)
  \<and> (\<forall>more k. counter_get (entity_freq (analyze_lines lib nlp n lines)) k
        \<le> counter_get (entity_freq (analyze_lines lib nlp n (lines @ more))) k)
  \<and> (\<forall>more k. counter_get (question_freq (analyze_lines lib nlp n lines)) k
        \<le> counter_get (question_freq (analyze_lines lib nlp n (lines @ more))) k)
  \<and> (\<forall>more k. counter_get (resolutions (analyze_lines lib nlp n lines)) k
        \<le> counter_get (resolutions (analyze_lines lib nlp n (lines @ more))) k)"
proof -
  have w: "counter_get (word_freq (analyze_lines lib nlp n ls)) k = int (word_occurrences lib ls k)" for ls k
    by (simp add: word_count_analyze_lines word_occurrences_def)
  have we: "0 \<le> v \<and> v = int (word_occurrences lib lines k)" if "(k, v) \<in> set (word_freq (analyze_lines lib nlp n lines))" for k v
    using counter_get_entry [OF dict_inv_analyze_lines(1) that] w [of lines k] by simp
  have wm: "word_occurrences lib lines k \<le> word_occurrences lib (lines @ more) k" for more k
    by (simp add: word_occurrences_def)
  have g: "counter_get (ngram_freq (analyze_lines lib nlp n ls)) k = int (ngram_occurrences lib n ls k)" for ls k
    by (simp add: ngram_count_analyze_lines ngram_occurrences_def)
  have ge: "0 \<le> v \<and> v = int (ngram_occurrences lib n lines k)" if "(k, v) \<in> set (ngram_freq (analyze_lines lib nlp n lines))" for k v
    using counter_get_entry [OF dict_inv_analyze_lines(2) that] g [of lines k] by simp
  have gm: "ngram_occurrences lib n lines k \<le> ngram_occurrences lib n (lines @ more) k" for more k
    by (simp add: ngram_occurrences_def)
  have e: "counter_get (entity_freq (analyze_lines lib nlp n ls)) k = int (entity_occurrences lib nlp ls k)" for ls k
    by (simp add: entity_count_analyze_lines entity_occurrences_def)
  have ee: "0 \<le> v \<and> v = int (entity_occurrences lib nlp lines k)" if "(k, v) \<in> set (entity_freq (analyze_lines lib nlp n lines))" for k v
    using counter_get_entry [OF dict_inv_analyze_lines(3) that] e [of lines k] by simp
  have em: "entity_occurrences lib nlp lines k \<le> entity_occurrences lib nlp (lines @ more) k" for more k
    by (simp add: entity_occurrences_def)
  have q: "counter_get (question_freq (analyze_lines lib nlp n ls)) k = int (question_occurrences lib ls k)" for ls k
    by (simp add: question_count_analyze_lines question_occurrences_def)
  have qe: "0 \<le> v \<and> v = int (question_occurrences lib lines k)" if "(k, v) \<in> set (question_freq (analyze_lines lib nlp n lines))" for k v
    using counter_get_entry [OF dict_inv_analyze_lines(4) that] q [of lines k] by simp
  have qm: "question_occurrences lib lines k \<le> question_occurrences lib (lines @ more) k" for more k
    by (simp add: question_occurrences_def)
  have r: "counter_get (resolutions (analyze_lines lib nlp n ls)) k = int (resolution_occurrences lib ls k)" for ls k
    by (simp add: resolution_count_analyze_lines resolution_occurrences_def)
  have re: "0 \<le> v \<and> v = int (resolution_occurrences lib lines k)" if "(k, v) \<in> set (resolutions (analyze_lines lib nlp n lines))" for k v
    using counter_get_entry [OF dict_inv_analyze_lines(5) that] r [of lines k] by simp
  have rm: "resolution_occurrences lib lines k \<le> resolution_occurrences lib (lines @ more) k" for more k
    by (simp add: resolution_occurrences_def)
  show ?thesis
  proof (intro conjI allI ballI)
    show "counter_get (word_freq (analyze_lines lib nlp n lines)) k = int (word_occurrences lib lines k)" for k
      by (rule w)
    show "counter_get (ngram_freq (analyze_lines lib nlp n lines)) k = int (ngram_occurrences lib n lines k)" for k
      by (rule g)
    show "counter_get (entity_freq (analyze_lines lib nlp n lines)) k = int (entity_occurrences lib nlp lines k)" for k
      by (rule e)
    show "counter_get (question_freq (analyze_lines lib nlp n lines)) k = int (question_occurrences lib lines k)" for k
      by (rule q)
    show "counter_get (resolutions (analyze_lines lib nlp n lines)) k = int (resolution_occurrences lib lines k)" for k
      by (rule r)
    show "case x of (k, v) \<Rightarrow> 0 \<le> v \<and> v = int (word_occurrences lib lines k)"
      if "x \<in> set (word_freq (analyze_lines lib nlp n lines))" for x
      using that we [of "fst x" "snd x"] by (simp add: case_prod_beta)
    show "case x of (k, v) \<Rightarrow> 0 \<le> v \<and> v = int (ngram_occurrences lib n lines k)"
      if "x \<in> set (ngram_freq (analyze_lines lib nlp n lines))" for x
      using that ge [of "fst x" "snd x"] by (simp add: case_prod_beta)
    show "case x of (k, v) \<Rightarrow> 0 \<le> v \<and> v = int (entity_occurrences lib nlp lines k)"
      if "x \<in> set (entity_freq (analyze_lines lib nlp n lines))" for x
      using that ee [of "fst x" "snd x"] by (simp add: case_prod_beta)
    show "case x of (k, v) \<Rightarrow> 0 \<le> v \<and> v = int (question_occurrences lib lines k)"
      if "x \<in> set (question_freq (analyze_lines lib nlp n lines))" for x
      using that qe [of "fst x" "snd x"] by (simp add: case_prod_beta)
    show "case x of (k, v) \<Rightarrow> 0 \<le> v \<and> v = int (resolution_occurrences lib lines k)"
      if "x \<in> set (resolutions (analyze_lines lib nlp n lines))" for x
      using that re [of "fst x" "snd x"] by (simp add: case_prod_beta)
    show "counter_get (word_freq (analyze_lines lib nlp n lines)) k
        \<le> counter_get (word_freq (analyze_lines lib nlp n (lines @ more))) k" for more k
      using wm [of k more] by (simp only: w of_nat_le_iff)
    show "counter_get (ngram_freq (analyze_lines lib nlp n lines)) k
        \<le> counter_get (ngram_freq (analyze_lines lib nlp n (lines @ more))) k" for more k
      using gm [of k more] by (simp only: g of_nat_le_iff)
    show "counter_get (entity_freq (analyze_lines lib nlp n lines)) k
        \<le> counter_get (entity_freq (analyze_lines lib nlp n (lines @ more))) k" for more k
      using em [of k more] by (simp only: e of_nat_le_iff)
    show "counter_get (question_freq (analyze_lines lib nlp n lines)) k
        \<le> counter_get (question_freq (analyze_lines lib nlp n (lines @ more))) k" for more k
      using qm [of k more] by (simp only: q of_nat_le_iff)
    show "counter_get (resolutions (analyze_lines lib nlp n lines)) k
        \<le> counter_get (resolutions (analyze_lines lib nlp n (lines @ more))) k" for more k
      using rm [of k more] by (simp only: r of_nat_le_iff)
  qed
qed

theorem frequency_counts_invariant_witness:
  "(''help'', 1) \<in> set (word_freq (analyze_lines example_library example_nlp 2 example_lines))
   \<and> int (word_occurrences example_library example_lines ''help'') = 1
   \<and> ([''help'', ''me''], 1)
       \<in> set (ngram_freq (analyze_lines example_library example_nlp 2 example_lines))
   \<and> int (ngram_occurrences example_library 2 example_lines [''help'', ''me'']) = 1
   \<and> (''Alice'', 1) \<in> set (entity_freq (analyze_lines example_library example_nlp 2 example_lines))
   \<and> int (entity_occurrences example_library example_nlp example_lines ''Alice'') = 1
   \<and> (''where is Alice?'', 1)
       \<in> set (question_freq (analyze_lines example_library example_nlp 2 example_lines))
   \<and> int (question_occurrences example_library example_lines ''where is Alice?'') = 1
   \<and> (''yesterday | fixed'', 1)
       \<in> set (resolutions (analyze_lines example_library example_nlp 2 example_lines))
   \<and> int (resolution_occurrences example_library example_lines ''yesterday | fixed'') = 1"
  using frequency_counts_invariant [of example_library example_nlp 2 example_lines]
  by (simp add: example_result)

lemma sorted_desc_sort_key:
  "sorted_wrt (\<lambda>a b. snd a \<ge> snd b) (sort_key (\<lambda>item. - snd item) (c :: ('k \<times> int) list))"
proof -
  have "sorted (map (\<lambda>item. - snd item) (sort_key (\<lambda>item. - snd item) c))"
    by (rule sorted_sort_key)
  then show ?thesis
    by (simp add: sorted_map)
qed

lemma dict_inv_sort_key: "dict_inv c \<Longrightarrow> dict_inv (sort_key f c)"
  by (simp add: dict_inv_def distinct_map)

lemma dict_inv_take: "dict_inv c \<Longrightarrow> dict_inv (take n c)"
  by (simp add: dict_inv_def take_map [symmetric])

lemma dict_inv_most_common: "dict_inv c \<Longrightarrow> dict_inv (most_common c n)"
  by (simp add: most_common_def dict_inv_take dict_inv_sort_key)

lemma is_top_k_most_common:
  assumes "dict_inv c" and "0 \<le> n"
  shows "is_top_k c (nat n) (most_common c n)"
proof -
  let ?s = "sort_key (\<lambda>item. - snd item) c"
  let ?r = "take (nat n) ?s"
  have dist: "distinct ?s"
    using assms(1) by (simp add: dict_inv_def distinct_map)
  have sorted_s: "sorted_wrt (\<lambda>a b. snd a \<ge> snd b) ?s"
    by (rule sorted_desc_sort_key)
  have split: "?s = ?r @ drop (nat n) ?s" by simp
  have len: "length ?r = min (nat n) (length c)" by simp
  have sub: "set ?r \<subseteq> set c"
    using set_take_subset [of "nat n" ?s] by simp
  have keys: "distinct (map fst ?r)"
    using dict_inv_most_common [OF assms(1), of n] by (simp add: dict_inv_def most_common_def)
  have sorted_r: "sorted_wrt (\<lambda>a b. snd a \<ge> snd b) ?r"
    using sorted_s split by (metis sorted_wrt_append)
  have top: "\<forall>a \<in> set ?r. \<forall>b \<in> set c - set ?r. snd b \<le> snd a"
  proof (intro ballI)
    fix a b assume a: "a \<in> set ?r" and b: "b \<in> set c - set ?r"
    have "set c = set ?r \<union> set (drop (nat n) ?s)"
      by (metis set_append set_sort split)
    with b have "b \<in> set (drop (nat n) ?s)" by auto
    with a sorted_s split show "snd b \<le> snd a"
      by (metis sorted_wrt_append)
  qed
  have stable: "prefix (filter (\<lambda>e. snd e = v) ?r) (filter (\<lambda>e. snd e = v) c)" for v
  proof -
    have "prefix (filter (\<lambda>e. - snd e = - v) ?r) (filter (\<lambda>e. - snd e = - v) ?s)"
      by (rule filter_mono_prefix) (rule take_is_prefix)
    also have "filter (\<lambda>e. - snd e = - v) ?s = filter (\<lambda>e. - snd e = - v) c"
      by (rule sort_key_stable)
    finally show ?thesis by simp
  qed
  show ?thesis
    unfolding is_top_k_def most_common_def
    using len sub keys sorted_r top stable by blast
qed

lemma append_sep_eq:
  "c \<notin> set x \<Longrightarrow> c \<notin> set y \<Longrightarrow> x @ c # r = y @ c # s \<Longrightarrow> x = y \<and> r = s"
proof (induction x arbitrary: y)
  case Nil
  then show ?case by (cases y) auto
next
  case (Cons a x)
  then show ?case by (cases y) auto
qed

lemma join_underscore_inj:
  "length xs = length ys \<Longrightarrow>
   \<forall>x \<in> set xs. CHR ''_'' \<notin> set x \<Longrightarrow> \<forall>y \<in> set ys. CHR ''_'' \<notin> set y \<Longrightarrow>
   join_underscore xs = join_underscore ys \<Longrightarrow> xs = ys"
proof (induction xs ys rule: list_induct2)
  case Nil
  then show ?case by simp
next
  case (Cons x xs y ys)
  show ?case
  proof (cases xs)
    case Nil
    with Cons show ?thesis by simp
  next
    case xs: (Cons x2 xs2)
    then obtain y2 ys2 where ys: "ys = y2 # ys2"
      using Cons.hyps by (cases ys) auto
    from Cons.prems have "x @ CHR ''_'' # join_underscore xs = y @ CHR ''_'' # join_underscore ys"
      by (simp add: xs ys)
    with Cons.prems have "x = y \<and> join_underscore xs = join_underscore ys"
      by (intro append_sep_eq) auto
    with Cons show ?thesis by simp
  qed
qed

subsection \<open>The entries that are exported\<close>

lemma tokenize_and_clean_isalpha:
  "w \<in> set (tokenize_and_clean lib text sw) \<Longrightarrow> isalpha lib w"
  by (simp add: tokenize_and_clean_def)

lemma window_shape:
  assumes "g \<in> set (fst (consume (generate_ngrams ws n)))"
  shows "length g = nat n \<and> set g \<subseteq> set ws"
proof (cases "1 \<le> n")
  case True
  from assms obtain k where k: "k < length ws + 1 - nat n" and g: "g = take (nat n) (drop k ws)"
    using pending_generate_ngrams [OF True, of ws] by (auto simp: consume_def)
  have "set g \<subseteq> set ws"
    unfolding g using set_take_subset set_drop_subset by fast
  with k g show ?thesis by auto
next
  case False
  with assms show ?thesis
    by (simp add: consume_def pending_generate_ngrams_nonpos)
qed

lemma ngram_keys_analyze_lines:
  "g \<in> fst ` set (ngram_freq (analyze_lines lib nlp n lines)) \<Longrightarrow>
   length g = nat n \<and> (\<forall>token \<in> set g. isalpha lib token)"
proof (induction lines rule: rev_induct)
  case Nil
  then show ?case by (simp add: analyze_lines_Nil empty_analysis_def)
next
  case (snoc l ls)
  let ?ws = "tokenize_and_clean lib (snd (parse_line lib l)) (set (stopwords_english lib))"
  from snoc.prems
  consider "g \<in> fst ` set (ngram_freq (analyze_lines lib nlp n ls))"
    | "g \<in> set (fst (consume (generate_ngrams ?ws n)))"
    by (auto simp: analyze_lines_snoc analyze_line_fields keys_counter_update)
  then show ?case
  proof cases
    case 1
    then show ?thesis by (rule snoc.IH)
  next
    case 2
    from window_shape [OF 2] tokenize_and_clean_isalpha show ?thesis
      by blast
  qed
qed

lemma ngram_keys_inv_analyze_lines:
  assumes "\<not> isalpha_char lib CHR ''_''"
  shows "ngram_keys_inv (ngram_freq (analyze_lines lib nlp n lines))"
proof -
  have "CHR ''_'' \<notin> set token" if "isalpha lib token" for token
    using that assms by (auto simp: isalpha_def list_all_iff)
  then show ?thesis
    using ngram_keys_analyze_lines [of _ lib nlp n lines]
    unfolding ngram_keys_inv_def list_all_iff by (metis list.set_map)
qed

lemma analysis_inv_analyze_lines:
  "\<not> isalpha_char lib CHR ''_'' \<Longrightarrow> analysis_inv (analyze_lines lib nlp n lines)"
  by (simp add: analysis_inv_def dict_inv_analyze_lines ngram_keys_inv_analyze_lines)

lemma analysis_inv_analyze_text:
  "\<not> isalpha_char lib CHR ''_'' \<Longrightarrow>
   analyze_text lib open_r file_path nlp n = Inr (Some data) \<Longrightarrow> analysis_inv data"
  by (auto simp: analyze_text_def analysis_inv_analyze_lines split: sum.splits if_splits)

lemma ngram_keys_inv_subset:
  "ngram_keys_inv c \<Longrightarrow> set r \<subseteq> set c \<Longrightarrow> ngram_keys_inv r"
  unfolding ngram_keys_inv_def list_all_iff by auto

lemma dict_of_ngram_strings:
  assumes "dict_inv r" and "ngram_keys_inv r"
  shows "dict_of (map (\<lambda>(k, v). (ngram_to_string k, v)) r) = map (\<lambda>(k, v). (ngram_to_string k, v)) r"
    and "distinct (map fst (map (\<lambda>(k, v). (ngram_to_string k, v)) r))"
proof -
  have inj: "inj_on join_underscore (set (map fst r))"
  proof (rule inj_onI)
    fix g h assume "g \<in> set (map fst r)" "h \<in> set (map fst r)"
      and "join_underscore g = join_underscore h"
    with assms(2) show "g = h"
      unfolding ngram_keys_inv_def list_all_iff
      by (intro join_underscore_inj) auto
  qed
  have eq: "map fst (map (\<lambda>(k, v). (ngram_to_string k, v)) r) = map join_underscore (map fst r)"
    by (induction r) (auto simp: ngram_to_string_def)
  have "distinct (map join_underscore (map fst r))"
    using assms(1) [unfolded dict_inv_def] inj by (metis distinct_map)
  then show d: "distinct (map fst (map (\<lambda>(k, v). (ngram_to_string k, v)) r))"
    by (simp only: eq)
  then show "dict_of (map (\<lambda>(k, v). (ngram_to_string k, v)) r) = map (\<lambda>(k, v). (ngram_to_string k, v)) r"
    by (intro dict_of_dict) (simp add: dict_inv_def)
qed

lemma limit_data_inv:
  assumes "analysis_inv data"
  shows "limit_data data save_n =
          \<lparr>json_word_freq = most_common (word_freq data) save_n,
             json_ngram_freq =
               map (\<lambda>(k, v). (ngram_to_string k, v)) (most_common (ngram_freq data) save_n),
             json_entity_freq = most_common (entity_freq data) save_n,
             json_question_freq = most_common (question_freq data) save_n,
             json_sentiment_time_series = slice_to (sentiment_time_series data) save_n,
             json_resolutions = most_common (resolutions data) save_n,
             json_issue_categories = issue_categories data\<rparr>"
proof -
  from assms have inv:
    "dict_inv (word_freq data)" "dict_inv (ngram_freq data)" "dict_inv (entity_freq data)"
    "dict_inv (question_freq data)" "dict_inv (resolutions data)"
    "dict_inv (issue_categories data)" "ngram_keys_inv (ngram_freq data)"
    by (simp_all add: analysis_inv_def)
  note same = inv(1-5) [THEN dict_inv_most_common, THEN dict_of_dict, of save_n]
  have "set (most_common (ngram_freq data) save_n) \<subseteq> set (ngram_freq data)"
    using set_take_subset [of "nat save_n" "sort_key (\<lambda>item. - snd item) (ngram_freq data)"]
    by (simp add: most_common_def)
  then have keys: "ngram_keys_inv (most_common (ngram_freq data) save_n)"
    using inv(7) by (rule ngram_keys_inv_subset [rotated])
  note ng = dict_of_ngram_strings [OF dict_inv_most_common [OF inv(2)] keys]
  show ?thesis
    using same ng dict_of_dict [OF inv(6)] by (simp add: limit_data_def)
qed

text \<open>
  Claim C1. For every \<open>K \<ge> 0\<close>, the text that a run of \<open>save_to_json\<close> without error
  leaves in the output file is the JSON text of the mappings \<open>most_common(K)\<close> of the
  word, n-gram, entity, question and resolution tables (for n-grams with each key joined
  by underscores, which keeps the keys apart); and \<open>most_common(K)\<close> of a table has
  \<open>min(K, number of keys)\<close> entries, in descending order of count, the entries left out
  having counts no larger than those kept, and the entries of equal count being the
  first ones of the table in its insertion order.
\<close>

theorem export_top_k:
  assumes "0 \<le> save_n" and "analysis_inv data"
    and "snd (save_to_json iterencode os old data output_file save_n) = None"
  shows
   "fst (save_to_json iterencode os old data output_file save_n)
      = Some (concat (iterencode
            \<lparr>json_word_freq = most_common (word_freq data) save_n,
             json_ngram_freq =
               map (\<lambda>(k, v). (ngram_to_string k, v)) (most_common (ngram_freq data) save_n),
             json_entity_freq = most_common (entity_freq data) save_n,
             json_question_freq = most_common (question_freq data) save_n,
             json_sentiment_time_series = slice_to (sentiment_time_series data) save_n,
             json_resolutions = most_common (resolutions data) save_n,
             json_issue_categories = issue_categories data\<rparr>))
  \<and> limit_data data save_n =
            \<lparr>json_word_freq = most_common (word_freq data) save_n,
             json_ngram_freq =
               map (\<lambda>(k, v). (ngram_to_string k, v)) (most_common (ngram_freq data) save_n),
             json_entity_freq = most_common (entity_freq data) save_n,
             json_question_freq = most_common (question_freq data) save_n,
             json_sentiment_time_series = slice_to (sentiment_time_series data) save_n,
             json_resolutions = most_common (resolutions data) save_n,
             json_issue_categories = issue_categories data\<rparr>
  \<and> is_top_k (word_freq data) (nat save_n) (most_common (word_freq data) save_n)
  \<and> is_top_k (ngram_freq data) (nat save_n) (most_common (ngram_freq data) save_n)
  \<and> distinct (map fst (map (\<lambda>(k, v). (ngram_to_string k, v))
        (most_common (ngram_freq data) save_n)))
  \<and> is_top_k (entity_freq data) (nat save_n) (most_common (entity_freq data) save_n)
  \<and> is_top_k (question_freq data) (nat save_n) (most_common (question_freq data) save_n)
  \<and> is_top_k (resolutions data) (nat save_n) (most_common (resolutions data) save_n)"
proof -
  from assms(2) have inv:
    "dict_inv (word_freq data)" "dict_inv (ngram_freq data)" "dict_inv (entity_freq data)"
    "dict_inv (question_freq data)" "dict_inv (resolutions data)"
    "ngram_keys_inv (ngram_freq data)"
    by (simp_all add: analysis_inv_def)
  note top = inv(1-5) [THEN is_top_k_most_common, OF assms(1)]
  have "set (most_common (ngram_freq data) save_n) \<subseteq> set (ngram_freq data)"
    using top(2) by (simp add: is_top_k_def)
  then have keys: "ngram_keys_inv (most_common (ngram_freq data) save_n)"
    using inv(6) by (rule ngram_keys_inv_subset [rotated])
  note ng = dict_of_ngram_strings(2) [OF dict_inv_most_common [OF inv(2)] keys]
  note written = save_to_json_no_error [OF assms(3)]
  show ?thesis
    using top ng written limit_data_inv [OF assms(2), of save_n] by simp
qed

theorem export_top_k_witness:
  "(0::int) \<le> 3 \<and> analysis_inv example_analysis
   \<and> save_to_json example_keys_iterencode example_os None example_analysis ''out/summary.json'' 3
       = (Some ''fixed bug help me_help help_me fixed support billing '', None)
   \<and> is_top_k (word_freq example_analysis) 3 [(''fixed'', 2), (''bug'', 2), (''help'', 1)]
   \<and> json_word_freq (limit_data example_analysis 3)
       = [(''fixed'', 2), (''bug'', 2), (''help'', 1)]
   \<and> json_ngram_freq (limit_data example_analysis 3) = [(''me_help'', 3), (''help_me'', 1)]
   \<and> json_resolutions (limit_data example_analysis 3) = [(''fixed'', 1)]"
proof -
  have inv: "analysis_inv example_analysis"
    by (simp add: analysis_inv_def example_analysis_def dict_inv_def ngram_keys_inv_def)
  have mc: "most_common (word_freq example_analysis) 3
              = [(''fixed'', 2), (''bug'', 2), (''help'', 1)]"
           "most_common (ngram_freq example_analysis) 3
              = [([''me'', ''help''], 3), ([''help'', ''me''], 1)]"
           "most_common (entity_freq example_analysis) 3 = []"
           "most_common (question_freq example_analysis) 3 = []"
           "most_common (resolutions example_analysis) 3 = [(''fixed'', 1)]"
           "issue_categories example_analysis = [(''support'', 2), (''billing'', 1)]"
    by (simp_all add: most_common_def example_analysis_def)
  have ok: "snd (save_to_json example_keys_iterencode example_os None example_analysis
              ''out/summary.json'' 3) = None"
    by (simp add: save_to_json_def makedirs_def write_text_def example_os_def dirname_def)
  show ?thesis
    using inv ok
      export_top_k [OF _ inv ok]
    by (simp add: mc ngram_to_string_def example_keys_iterencode_def prod_eq_iff)
qed

subsection \<open>The issue categories of a line\<close>

lemma list_ex_str_in:
  "list_ex (\<lambda>keyword. str_in keyword text) keywords = category_matches text keywords"
  by (simp add: category_matches_def list_ex_iff str_in_sublist)

lemma counter_get_categorize_issues:
  "counter_get (categorize_issues text issue_keywords) c =
     (if c = ''billing'' \<and> category_matches text [''invoice'', ''billing'', ''charge'', ''payment'']
        \<or> c = ''technical'' \<and> category_matches text [''error'', ''problem'', ''bug'', ''issue'']
        \<or> c = ''support'' \<and> category_matches text [''help'', ''support'', ''service'', ''assistance'']
      then 1 else 0)"
  unfolding categorize_issues_def issue_keywords_def foldl.simps prod.case list_ex_str_in
  by (simp add: counter_update_def)

lemma example_matches:
  "category_matches ''I have a billing issue, please help'' [''invoice'', ''billing'', ''charge'', ''payment'']"
  "category_matches ''I have a billing issue, please help'' [''error'', ''problem'', ''bug'', ''issue'']"
  "category_matches ''I have a billing issue, please help'' [''help'', ''support'', ''service'', ''assistance'']"
  "category_matches ''invoice and payment'' [''invoice'', ''billing'', ''charge'', ''payment'']"
  "\<not> category_matches ''invoice and payment'' [''error'', ''problem'', ''bug'', ''issue'']"
  "\<not> category_matches ''invoice and payment'' [''help'', ''support'', ''service'', ''assistance'']"
  "\<not> category_matches ''Billing'' [''invoice'', ''billing'', ''charge'', ''payment'']"
  by (simp_all add: list_ex_str_in [symmetric])

text \<open>
  Claim C8. With the built-in keywords, a line's text adds exactly 1 to the tally of
  each of the categories billing, technical and support of which it contains a keyword
  as a substring (case-sensitive, and 1 however many of the keywords occur), and 0 to the
  tally of each other category; so one line may raise none, one or several tallies.
\<close>

theorem categorize_issues_increment:
  "counter_get (counter_update_mapping tally (categorize_issues text issue_keywords)) ''billing''
     = counter_get tally ''billing''
       + (if category_matches text [''invoice'', ''billing'', ''charge'', ''payment''] then 1 else 0)
   \<and> counter_get (counter_update_mapping tally (categorize_issues text issue_keywords)) ''technical''
     = counter_get tally ''technical''
       + (if category_matches text [''error'', ''problem'', ''bug'', ''issue''] then 1 else 0)
   \<and> counter_get (counter_update_mapping tally (categorize_issues text issue_keywords)) ''support''
     = counter_get tally ''support''
       + (if category_matches text [''help'', ''support'', ''service'', ''assistance''] then 1 else 0)
   \<and> (\<forall>c. c \<notin> {''billing'', ''technical'', ''support''} \<longrightarrow>
        counter_get (counter_update_mapping tally (categorize_issues text issue_keywords)) c
          = counter_get tally c)"
  by (simp add: counter_get_update_mapping [OF dict_inv_categorize_issues]
      counter_get_categorize_issues)

theorem categorize_issues_increment_witness:
  "''other'' \<notin> {''billing'', ''technical'', ''support''}
   \<and> counter_get (counter_update_mapping [(''billing'', 3), (''other'', 7)]
        (categorize_issues ''I have a billing issue, please help'' issue_keywords)) ''billing'' = 4
   \<and> counter_get (counter_update_mapping [(''billing'', 3), (''other'', 7)]
        (categorize_issues ''I have a billing issue, please help'' issue_keywords)) ''technical'' = 1
   \<and> counter_get (counter_update_mapping [(''billing'', 3), (''other'', 7)]
        (categorize_issues ''I have a billing issue, please help'' issue_keywords)) ''support'' = 1
   \<and> counter_get (counter_update_mapping [(''billing'', 3), (''other'', 7)]
        (categorize_issues ''I have a billing issue, please help'' issue_keywords)) ''other'' = 7
   \<and> counter_get (counter_update_mapping [(''billing'', 3), (''other'', 7)]
        (categorize_issues ''invoice and payment'' issue_keywords)) ''billing'' = 4
   \<and> counter_get (counter_update_mapping [(''billing'', 3), (''other'', 7)]
        (categorize_issues ''invoice and payment'' issue_keywords)) ''technical'' = 0
   \<and> counter_get (counter_update_mapping [(''billing'', 3), (''other'', 7)]
        (categorize_issues ''Billing'' issue_keywords)) ''billing'' = 3"
  using categorize_issues_increment
          [of "[(''billing'', 3), (''other'', 7)]" "''I have a billing issue, please help''"]
        categorize_issues_increment [of "[(''billing'', 3), (''other'', 7)]" "''invoice and payment''"]
        categorize_issues_increment [of "[(''billing'', 3), (''other'', 7)]" "''Billing''"]
  by (simp add: example_matches)

subsection \<open>Writing the output file\<close>

lemma dirname_bare: "CHR ''/'' \<notin> set p \<Longrightarrow> dirname p = []"
proof -
  assume "CHR ''/'' \<notin> set p"
  then have "dropWhile (\<lambda>c. c \<noteq> CHR ''/'') (rev p) = []"
    by auto
  then show ?thesis by (simp add: dirname_def)
qed

lemma dirname_example: "dirname ''out/summary.json'' = ''out''"
  by (simp add: dirname_def)

lemma save_to_json_no_directory:
  "CHR ''/'' \<notin> set output_file \<Longrightarrow>
   save_to_json iterencode os old data output_file save_n = (old, Some FileNotFoundError)"
  by (simp add: save_to_json_def makedirs_def dirname_bare)

lemma save_to_json_success:
  assumes "dirname output_file \<noteq> []" and "makedirs_error os (dirname output_file) = None"
    and "open_error os output_file = None" and "write_room os = None"
  shows "save_to_json iterencode os old data output_file save_n =
     (Some (concat (iterencode (limit_data data save_n))), None)"
  using assms by (simp add: save_to_json_def makedirs_def write_text_def)

text \<open>
  Claim C5 fails on an output path without a directory part: \<open>os.path.dirname\<close> of
  a bare file name is the empty string, \<open>os.makedirs\<close> of the empty string raises
  \<open>FileNotFoundError\<close>, and \<open>save_to_json\<close> stops there: the file is not opened and
  nothing is written, whatever the operating system would do.
\<close>

theorem save_to_json_bare_filename:
  "save_to_json iterencode os old data ''summary.json'' save_n = (old, Some FileNotFoundError)"
  by (simp add: save_to_json_def makedirs_def dirname_def)

text \<open>
  Claim C4, as the code has it. When \<open>os.makedirs\<close> or \<open>open\<close> raises, the output
  file is as it was before the call. The write itself is not atomic: the file is opened
  in truncating mode and the JSON text is then written through the file object, so a run
  whose write fails after the operating system took \<open>b\<close> bytes leaves at the output path
  the first \<open>b\<close> bytes of the text, a proper prefix of it, in place of what the file held
  before.
\<close>

theorem save_to_json_failure:
  "(\<forall>e. makedirs os (dirname output_file) = Some e \<longrightarrow>
      save_to_json iterencode os old data output_file save_n = (old, Some e))
   \<and> (\<forall>e. makedirs os (dirname output_file) = None \<and> open_error os output_file = Some e \<longrightarrow>
      save_to_json iterencode os old data output_file save_n = (old, Some e))
   \<and> (\<forall>b. makedirs os (dirname output_file) = None \<and> open_error os output_file = None \<and>
        write_room os = Some b \<and> b < length (concat (iterencode (limit_data data save_n))) \<longrightarrow>
      save_to_json iterencode os old data output_file save_n
        = (Some (take b (concat (iterencode (limit_data data save_n)))), Some OSError) \<and>
      strict_prefix (take b (concat (iterencode (limit_data data save_n))))
        (concat (iterencode (limit_data data save_n))))"
proof -
  have "strict_prefix (take b s) s" if "b < length s" for b :: nat and s :: string
    using that take_is_prefix [of b s] by (auto simp: strict_prefix_def)
  then show ?thesis
    by (auto simp: save_to_json_def write_text_def)
qed

theorem save_to_json_failure_witness:
  "makedirs (example_os\<lparr>makedirs_error := (\<lambda>name. Some PermissionError)\<rparr>)
     (dirname ''out/summary.json'') = Some PermissionError
   \<and> save_to_json example_iterencode (example_os\<lparr>makedirs_error := (\<lambda>name. Some PermissionError)\<rparr>)
        (Some ''old summary'') empty_analysis ''out/summary.json'' 10
       = (Some ''old summary'', Some PermissionError)
   \<and> makedirs (example_os\<lparr>open_error := (\<lambda>path. Some IsADirectoryError)\<rparr>)
        (dirname ''out/summary.json'') = None
   \<and> save_to_json example_iterencode (example_os\<lparr>open_error := (\<lambda>path. Some IsADirectoryError)\<rparr>)
        (Some ''old summary'') empty_analysis ''out/summary.json'' 10
       = (Some ''old summary'', Some IsADirectoryError)
   \<and> makedirs example_os_full (dirname ''out/summary.json'') = None
   \<and> open_error example_os_full ''out/summary.json'' = None
   \<and> write_room example_os_full = Some 5
   \<and> 5 < length (concat (example_iterencode (limit_data empty_analysis 10)))
   \<and> save_to_json example_iterencode example_os_full (Some ''old summary'') empty_analysis
        ''out/summary.json'' 10
       = (Some (CHR ''{'' # CHR 0x0A # ''   ''), Some OSError)"
  using save_to_json_failure [of "example_os\<lparr>makedirs_error := (\<lambda>name. Some PermissionError)\<rparr>"
          "''out/summary.json''" example_iterencode "Some ''old summary''" empty_analysis 10]
        save_to_json_failure [of "example_os\<lparr>open_error := (\<lambda>path. Some IsADirectoryError)\<rparr>"
          "''out/summary.json''" example_iterencode "Some ''old summary''" empty_analysis 10]
        save_to_json_failure [of example_os_full
          "''out/summary.json''" example_iterencode "Some ''old summary''" empty_analysis 10]
  by (simp add: dirname_example makedirs_def example_os_def example_os_full_def
      example_iterencode_def Let_def)

text \<open>
  Claim C4 as stated fails: on an operating system with room for five bytes, the run
  raises \<open>OSError\<close> and leaves the output path with the first five bytes of the JSON
  text, which is neither what the file held before nor the whole text.
\<close>

theorem save_to_json_half_written_counterexample:
  "save_to_json example_iterencode example_os_full (Some ''old summary'') empty_analysis
        ''out/summary.json'' 10
     = (Some (CHR ''{'' # CHR 0x0A # ''   ''), Some OSError)
   \<and> CHR ''{'' # CHR 0x0A # ''   '' \<noteq> ''old summary''
   \<and> strict_prefix (CHR ''{'' # CHR 0x0A # ''   '')
        (concat (example_iterencode (limit_data empty_analysis 10)))"
  by (simp add: save_to_json_def makedirs_def write_text_def dirname_example
      example_os_full_def example_iterencode_def Let_def)

end
